theory Spec2Isabelle
  imports Main
begin

section \<open>Client session controller: the \<open>useAuthStore\<close> store\<close>

text \<open>
  The store of \<^verbatim>\<open>src/unnamed/part_000\<close> is a zustand store: a record of fields that
  the actions read with \<^verbatim>\<open>get()\<close> and update with \<^verbatim>\<open>set({...})\<close>. The actions also touch
  three things outside the store: the \<^verbatim>\<open>localStorage\<close> entry \<^verbatim>\<open>"token"\<close>, the socket objects
  made by \<^verbatim>\<open>io(...)\<close>, and the user-visible toasts. All of them are fields of one record
  here, so that an action is a function from client state to client state.

  What the server answers to an HTTP request is not decided by this code, so each
  asynchronous action takes the outcome of its \<^verbatim>\<open>await\<close> as a parameter.
\<close>

subsection \<open>Data\<close>

text \<open>
  The body of a successful reply (\<^verbatim>\<open>res.data\<close>): the code reads its \<^verbatim>\<open>_id\<close> and
  \<^verbatim>\<open>token\<close> properties.
\<close>

record user =
  uid :: string
  utoken :: string

text \<open>
  The outcome of \<^verbatim>\<open>await axiosInstance.get/post/put(...)\<close>. \<open>Resolved d\<close>: the promise resolved
  and \<^verbatim>\<open>res.data\<close> is \<open>d\<close>. \<open>Rejected status message\<close>: the promise rejected with an
  error whose \<^verbatim>\<open>error.response?.status\<close> and \<^verbatim>\<open>error.response?.data?.message\<close> are the two
  arguments (\<open>None\<close> for \<^verbatim>\<open>undefined\<close>, as for a network error, which has no response).
\<close>

datatype 'a response = Resolved 'a | Rejected "nat option" "string option"

text \<open>
  A socket object of socket.io-client, together with the manager \<^verbatim>\<open>io(...)\<close> makes for it.
  Only \<^verbatim>\<open>socket.connected\<close> is read by the store; it is true exactly in state
  \<open>Connected\<close>. In state \<open>Connecting\<close> the manager is opening its transport, in state
  \<open>Disconnected\<close> the transport is closed. Lines 118--121 pass no \<^verbatim>\<open>reconnection: false\<close>, so
  the library's automatic reconnection is on: \<open>reconnecting\<close> is the manager's flag that a
  reconnection of its own is scheduled or under way. \<open>query_userId\<close> is the
  \<^verbatim>\<open>query: { userId }\<close> the socket was created with.
\<close>

datatype conn_state = Disconnected | Connecting | Connected

record socket_obj =
  sock_state :: conn_state
  reconnecting :: bool
  query_userId :: string

text \<open>What the transport observes: a connection being opened or closed by the client.\<close>

datatype transport_action = Open nat | Close nat

datatype toast = Success string | Error string

text \<open>
  \<open>authUser\<close> to \<open>socket\<close> are the store's fields (lines 28--34); \<open>socket\<close> is a
  reference into \<open>heap\<close>, the socket objects created so far (\<open>None\<close> is \<^verbatim>\<open>null\<close>).
  \<open>token\<close> is \<^verbatim>\<open>localStorage.getItem("token")\<close>. \<open>timers\<close> are the pending
  \<^verbatim>\<open>setTimeout\<close> callbacks as (delay in ms, socket whose \<^verbatim>\<open>connect()\<close> the callback calls).
  \<open>wire\<close> is the sequence of transport actions, \<open>toasts\<close> and \<open>console\<close> the messages
  shown and logged.
\<close>

record client =
  authUser :: "user option"
  isSigningUp :: bool
  isLoggingIn :: bool
  isUpdatingProfile :: bool
  isCheckingAuth :: bool
  onlineUsers :: "string list"
  socket :: "nat option"
  token :: "string option"
  heap :: "socket_obj list"
  timers :: "(nat \<times> nat) list"
  wire :: "transport_action list"
  toasts :: "toast list"
  console :: "string list"

text \<open>The initial store (lines 28--34), with no persisted token and nothing created yet.\<close>

definition init_client :: client where
  "init_client =
     \<lparr>authUser = None, isSigningUp = False, isLoggingIn = False, isUpdatingProfile = False,
      isCheckingAuth = True, onlineUsers = [], socket = None, token = None, heap = [],
      timers = [], wire = [], toasts = [], console = []\<rparr>"

subsection \<open>The socket library, as far as the store uses it\<close>

text \<open>\<^verbatim>\<open>io(BASE_URL, { query: { userId }, autoConnect: false })\<close>: a new socket object, not connected.\<close>

definition io :: "string \<Rightarrow> client \<Rightarrow> nat \<times> client" where
  "io userId st =
     (length (heap st),
      st\<lparr>heap := heap st @
         [\<lparr>sock_state = Disconnected, reconnecting = False, query_userId = userId\<rparr>]\<rparr>)"

text \<open>\<^verbatim>\<open>socket.connected\<close> of the socket object at address \<open>s\<close>.\<close>

definition connected :: "client \<Rightarrow> nat \<Rightarrow> bool" where
  "connected st s = (s < length (heap st) \<and> sock_state (heap st ! s) = Connected)"

text \<open>\<^verbatim>\<open>get().socket?.connected\<close>: falsy when the store's socket is \<^verbatim>\<open>null\<close>.\<close>

definition socket_connected :: "client \<Rightarrow> bool" where
  "socket_connected st = (case socket st of None \<Rightarrow> False | Some s \<Rightarrow> connected st s)"

text \<open>
  \<^verbatim>\<open>socket.connect()\<close>: returns at once on a connected socket; otherwise it opens the
  manager's transport, unless the manager is reconnecting by itself or the transport is
  already being opened.
\<close>

definition sock_connect :: "nat \<Rightarrow> client \<Rightarrow> client" where
  "sock_connect s st =
     (if s < length (heap st) \<and> sock_state (heap st ! s) = Disconnected \<and>
         \<not> reconnecting (heap st ! s)
      then st\<lparr>heap := (heap st)[s := (heap st ! s)\<lparr>sock_state := Connecting\<rparr>],
              wire := wire st @ [Open s]\<rparr>
      else st)"

text \<open>
  \<^verbatim>\<open>socket.disconnect()\<close>: closes the transport of a socket that is connected or connecting
  and stops the manager's reconnection. Closing a connected socket emits its
  \<^verbatim>\<open>"disconnect"\<close> event, whose handler (lines 134--136) logs.
\<close>

definition sock_disconnect :: "nat \<Rightarrow> client \<Rightarrow> client" where
  "sock_disconnect s st =
     (if s < length (heap st)
      then (if sock_state (heap st ! s) \<noteq> Disconnected
            then st\<lparr>heap := (heap st)[s := (heap st ! s)\<lparr>sock_state := Disconnected,
                                                        reconnecting := False\<rparr>],
                    wire := wire st @ [Close s],
                    console := (if sock_state (heap st ! s) = Connected
                                then console st @ [''Socket disconnected'']
                                else console st)\<rparr>
            else st\<lparr>heap := (heap st)[s := (heap st ! s)\<lparr>reconnecting := False\<rparr>]\<rparr>)
      else st)"

subsection \<open>\<^verbatim>\<open>connectSocket\<close> and \<^verbatim>\<open>disconnectSocket\<close> (lines 114--151)\<close>

text \<open>
  Line 116 returns when \<^verbatim>\<open>authUser\<close> is falsy or the store's socket is connected. Otherwise
  a new socket is created, \<^verbatim>\<open>connect()\<close> is called on it, and it becomes the store's socket.
  The four handlers of lines 126--142 are registered on every socket made here; they are
  the function \<open>emit\<close> below.
\<close>

definition connectSocket :: "client \<Rightarrow> client" where
  "connectSocket st =
     (case authUser st of
        None \<Rightarrow> st
      | Some u \<Rightarrow>
          if socket_connected st then st
          else (case io (uid u) st of
                  (s, st1) \<Rightarrow> (sock_connect s st1)\<lparr>socket := Some s\<rparr>))"

definition disconnectSocket :: "client \<Rightarrow> client" where
  "disconnectSocket st =
     (case socket st of
        None \<Rightarrow> st
      | Some s \<Rightarrow>
          if connected st s
          then (let st1 = sock_disconnect s st
                in st1\<lparr>console := console st1 @ [''Socket disconnected'']\<rparr>)
          else st)"

subsection \<open>Socket events and their handlers (lines 126--142)\<close>

text \<open>
  Why an established connection ended: the server closed it explicitly
  (\<^verbatim>\<open>"io server disconnect"\<close>), or the transport failed (\<^verbatim>\<open>"transport close"\<close>,
  \<^verbatim>\<open>"transport error"\<close>, \<^verbatim>\<open>"ping timeout"\<close>).
\<close>

datatype close_reason = ServerDisconnect | TransportError

text \<open>
  What can happen to a socket from outside. The first four are the events the store has
  handlers for. \<open>EvReconnectAttempt\<close> is the manager's own reconnection timer firing; the
  store has no handler for it.
\<close>

datatype socket_event =
  EvConnect
  | EvGetOnlineUsers "string list"
  | EvDisconnect close_reason
  | EvConnectError
  | EvReconnectAttempt

text \<open>
  The event \<open>ev\<close> arrives on socket \<open>s\<close>: what the library does to the socket object,
  and the handler of the store.
  \<^item> \<^verbatim>\<open>"connect"\<close> acknowledges a connecting socket and ends a reconnection; the handler
    of lines 126--128 logs.
  \<^item> \<^verbatim>\<open>"getOnlineUsers"\<close>: the handler of lines 130--132 stores the list.
  \<^item> \<^verbatim>\<open>"disconnect"\<close> reports that a connected socket lost its connection; the handler of
    lines 134--136 logs and does nothing else. After a transport failure the manager
    schedules a reconnection of its own (after a randomised delay that starts near one
    second and grows); after an explicit close by the server it does not.
  \<^item> \<^verbatim>\<open>"connect_error"\<close> reports that the transport of a connecting socket failed to open;
    the handler of lines 139--142 logs and sets a timer of 5000 ms. The manager schedules
    its next reconnection as well.
  \<^item> When the manager's reconnection timer fires, the transport is opened again.

  An address that is no socket has no handlers.
\<close>

fun emit :: "nat \<Rightarrow> socket_event \<Rightarrow> client \<Rightarrow> client" where
  "emit s EvConnect st =
     (if s < length (heap st) \<and> sock_state (heap st ! s) = Connecting
      then st\<lparr>heap := (heap st)[s := (heap st ! s)\<lparr>sock_state := Connected,
                                                  reconnecting := False\<rparr>],
              console := console st @ [''Socket connected'']\<rparr>
      else st)"
| "emit s (EvGetOnlineUsers userIds) st =
     (if s < length (heap st) then st\<lparr>onlineUsers := userIds\<rparr> else st)"
| "emit s (EvDisconnect reason) st =
     (if s < length (heap st) \<and> sock_state (heap st ! s) = Connected
      then st\<lparr>heap := (heap st)[s := (heap st ! s)\<lparr>sock_state := Disconnected,
                                                  reconnecting := (reason = TransportError)\<rparr>],
              wire := (if reason = ServerDisconnect then wire st @ [Close s] else wire st),
              console := console st @ [''Socket disconnected'']\<rparr>
      else st)"
| "emit s EvConnectError st =
     (if s < length (heap st) \<and> sock_state (heap st ! s) = Connecting
      then st\<lparr>heap := (heap st)[s := (heap st ! s)\<lparr>sock_state := Disconnected,
                                                  reconnecting := True\<rparr>],
              console := console st @ [''Socket connection error:''],
              timers := timers st @ [(5000, s)]\<rparr>
      else st)"
| "emit s EvReconnectAttempt st =
     (if s < length (heap st) \<and> sock_state (heap st ! s) = Disconnected \<and>
         reconnecting (heap st ! s)
      then st\<lparr>heap := (heap st)[s := (heap st ! s)\<lparr>sock_state := Connecting\<rparr>],
              wire := wire st @ [Open s]\<rparr>
      else st)"

text \<open>The oldest pending timer fires: its callback is \<^verbatim>\<open>() => socket.connect()\<close> (line 141).\<close>

definition fire_timer :: "client \<Rightarrow> client" where
  "fire_timer st =
     (case timers st of
        [] \<Rightarrow> st
      | (d, s) # ts \<Rightarrow> sock_connect s (st\<lparr>timers := ts\<rparr>))"

subsection \<open>The authentication actions (lines 37--111)\<close>

text \<open>JavaScript's \<^verbatim>\<open>m || d\<close> on an optional string: \<^verbatim>\<open>undefined\<close> and \<^verbatim>\<open>""\<close> are falsy.\<close>

definition or_else :: "string option \<Rightarrow> string \<Rightarrow> string" where
  "or_else m d = (case m of None \<Rightarrow> d | Some x \<Rightarrow> if x = [] then d else x)"

text \<open>
  \<^verbatim>\<open>checkAuth\<close>: \<^verbatim>\<open>res.data\<close> may be \<^verbatim>\<open>null\<close> (\<open>None\<close>); it is stored as it is and
  \<^verbatim>\<open>connectSocket\<close> then returns at line 116. The \<^verbatim>\<open>finally\<close> block runs on both paths.
\<close>

definition checkAuth :: "user option response \<Rightarrow> client \<Rightarrow> client" where
  "checkAuth res st =
     (let st1 =
        (case res of
           Resolved d \<Rightarrow> connectSocket (st\<lparr>authUser := d\<rparr>)
         | Rejected status message \<Rightarrow>
             (let st2 = st\<lparr>console := console st @ [''Error in checkAuth:'']\<rparr>;
                  st3 = (if status = Some 401 then st2\<lparr>token := None\<rparr> else st2)
              in st3\<lparr>authUser := None\<rparr>))
      in st1\<lparr>isCheckingAuth := False\<rparr>)"

text \<open>
  \<^verbatim>\<open>signup\<close> and \<^verbatim>\<open>login\<close>: when the promise resolves with a \<^verbatim>\<open>null\<close> body,
  \<^verbatim>\<open>res.data.token\<close> throws a TypeError, which has no \<^verbatim>\<open>response\<close>: the \<^verbatim>\<open>catch\<close> block
  shows the fallback message.
\<close>

definition signup :: "user option response \<Rightarrow> client \<Rightarrow> client" where
  "signup res st =
     (let st0 = st\<lparr>isSigningUp := True\<rparr>;
          st1 =
            (case res of
               Resolved (Some d) \<Rightarrow>
                 connectSocket
                   (st0\<lparr>token := Some (utoken d), authUser := Some d,
                        toasts := toasts st0 @ [Success ''Account created successfully'']\<rparr>)
             | Resolved None \<Rightarrow>
                 st0\<lparr>toasts := toasts st0 @ [Error ''Signup failed'']\<rparr>
             | Rejected status message \<Rightarrow>
                 st0\<lparr>toasts := toasts st0 @ [Error (or_else message ''Signup failed'')]\<rparr>)
      in st1\<lparr>isSigningUp := False\<rparr>)"

definition login :: "user option response \<Rightarrow> client \<Rightarrow> client" where
  "login res st =
     (let st0 = st\<lparr>isLoggingIn := True\<rparr>;
          st1 =
            (case res of
               Resolved (Some d) \<Rightarrow>
                 connectSocket
                   (st0\<lparr>token := Some (utoken d), authUser := Some d,
                        toasts := toasts st0 @ [Success ''Logged in successfully'']\<rparr>)
             | Resolved None \<Rightarrow>
                 st0\<lparr>toasts := toasts st0 @ [Error ''Login failed'']\<rparr>
             | Rejected status message \<Rightarrow>
                 st0\<lparr>toasts := toasts st0 @ [Error (or_else message ''Login failed'')]\<rparr>)
      in st1\<lparr>isLoggingIn := False\<rparr>)"


definition updateProfile :: "user option response \<Rightarrow> client \<Rightarrow> client" where
  "updateProfile res st =
     (let st0 = st\<lparr>isUpdatingProfile := True\<rparr>;
          st1 =
            (case res of
               Resolved d \<Rightarrow>
                 st0\<lparr>authUser := d,
                     toasts := toasts st0 @ [Success ''Profile updated successfully'']\<rparr>
             | Rejected status message \<Rightarrow>
                 st0\<lparr>console := console st0 @ [''Error in updateProfile:''],
                     toasts := toasts st0 @ [Error (or_else message ''Profile update failed'')]\<rparr>)
      in st1\<lparr>isUpdatingProfile := False\<rparr>)"

subsection \<open>Example states\<close>

definition alice :: user where
  "alice = \<lparr>uid = ''a1'', utoken = ''tok-a''\<rparr>"

text \<open>Alice has logged in, her socket is still connecting.\<close>

definition alice_connecting :: client where
  "alice_connecting = login (Resolved (Some alice)) init_client"

text \<open>The handshake of that socket has been acknowledged.\<close>

definition alice_online :: client where
  "alice_online = emit 0 EvConnect alice_connecting"

text \<open>Alice is authenticated and no socket has been made yet (the store between lines 75 and 77).\<close>

definition alice_session :: client where
  "alice_session = init_client\<lparr>authUser := Some alice\<rparr>"



text \<open>The number of close events the transport has observed.\<close>

definition closes :: "client \<Rightarrow> nat" where
  "closes st = length (filter (\<lambda>a. case a of Close s \<Rightarrow> True | Open s \<Rightarrow> False) (wire st))"

section \<open>Server presence registry\<close>

text \<open>
  \<^verbatim>\<open>src/backend/src/index.js\<close> imports the server and its socket handlers from
  \<^verbatim>\<open>./lib/socket.js\<close>, which is not among the sources. The registry below follows sections 3
  and 4.2 of the specification.
\<close>

text \<open>
  Modelled from the spec: the ConnectionRecord of \<^verbatim>\<open>lib/socket.js\<close>,
  \<^verbatim>\<open>{identity, connectionHandle, connectedAt}\<close>, one per live connection.
\<close>

record conn_record =
  identity :: string
  connectionHandle :: nat
  connectedAt :: nat

text \<open>
  Modelled from the spec: the registry of \<^verbatim>\<open>lib/socket.js\<close>, a mapping from identity to
  ConnectionRecord, kept as a list of entries in insertion order.
\<close>

type_synonym registry = "(string \<times> conn_record) list"

text \<open>
  Modelled from the spec: insertion into the registry of \<^verbatim>\<open>lib/socket.js\<close> under policy (a),
  overwrite: an entry already present for the identity is replaced.
\<close>

fun insert_record :: "string \<Rightarrow> conn_record \<Rightarrow> registry \<Rightarrow> registry" where
  "insert_record k v [] = [(k, v)]"
| "insert_record k v ((k', v') # reg) =
     (if k' = k then (k, v) # reg else (k', v') # insert_record k v reg)"

text \<open>Modelled from the spec: removal of an identity's record from the registry of \<^verbatim>\<open>lib/socket.js\<close>.\<close>

definition remove_record :: "string \<Rightarrow> registry \<Rightarrow> registry" where
  "remove_record k reg = filter (\<lambda>(k', v). k' \<noteq> k) reg"

text \<open>
  Modelled from the spec: the OnlineSet of \<^verbatim>\<open>lib/socket.js\<close>, recomputed from the registry's
  keys each time, as an ordered sequence of identities.
\<close>

definition onlineSet :: "registry \<Rightarrow> string list" where
  "onlineSet reg = map fst reg"

text \<open>
  Modelled from the spec: the events the registry of \<^verbatim>\<open>lib/socket.js\<close> handles. \<open>Connect i h t\<close>:
  a connection with handle \<open>h\<close> presents identity \<open>i\<close> at time \<open>t\<close>. \<open>Disconnect i h\<close>: the
  connection with handle \<open>h\<close>, which presented identity \<open>i\<close>, closes.
\<close>

datatype server_event = Connect string nat nat | Disconnect string nat

text \<open>
  Modelled from the spec: the connect and disconnect handlers of \<^verbatim>\<open>lib/socket.js\<close>. On
  connect the record is inserted; on disconnect the record is removed if and only if the
  closing connection is the one on record. After every insertion or removal the recomputed
  OnlineSet is broadcast: the second component is the broadcast, \<open>None\<close> when nothing is sent.
\<close>

fun step :: "server_event \<Rightarrow> registry \<Rightarrow> registry \<times> string list option" where
  "step (Connect i h t) reg =
     (let reg' = insert_record i \<lparr>identity = i, connectionHandle = h, connectedAt = t\<rparr> reg
      in (reg', Some (onlineSet reg')))"
| "step (Disconnect i h) reg =
     (case map_of reg i of
        None \<Rightarrow> (reg, None)
      | Some r \<Rightarrow>
          if connectionHandle r = h
          then (let reg' = remove_record i reg in (reg', Some (onlineSet reg')))
          else (reg, None))"

text \<open>
  Modelled from the spec: the registry of \<^verbatim>\<open>lib/socket.js\<close> handling a sequence of events one
  at a time (mutations are serialised, section 5). The result lists, for each event, the
  registry right after it and what was broadcast.
\<close>

fun trace :: "registry \<Rightarrow> server_event list \<Rightarrow> (registry \<times> string list option) list" where
  "trace reg [] = []"
| "trace reg (e # es) = (case step e reg of (reg', b) \<Rightarrow> (reg', b) # trace reg' es)"

text \<open>
  The scenario of section 8: A connects, B connects, A's connection drops, A reconnects.
\<close>

definition scenario :: "server_event list" where
  "scenario = [Connect ''A'' 1 10, Connect ''B'' 2 11, Disconnect ''A'' 1, Connect ''A'' 3 20]"

section \<open>Properties of the client\<close>

subsection \<open>The example states, evaluated\<close>

lemmas sock_defs = socket_connected_def connected_def sock_connect_def sock_disconnect_def io_def

lemma alice_connecting_eq:
  "alice_connecting =
     \<lparr>authUser = Some alice, isSigningUp = False, isLoggingIn = False, isUpdatingProfile = False,
      isCheckingAuth = True, onlineUsers = [], socket = Some 0, token = Some ''tok-a'',
      heap = [\<lparr>sock_state = Connecting, reconnecting = False, query_userId = ''a1''\<rparr>],
      timers = [], wire = [Open 0], toasts = [Success ''Logged in successfully''], console = []\<rparr>"
  by (simp add: alice_connecting_def login_def init_client_def connectSocket_def sock_defs alice_def)

lemma alice_online_eq:
  "alice_online =
     \<lparr>authUser = Some alice, isSigningUp = False, isLoggingIn = False, isUpdatingProfile = False,
      isCheckingAuth = True, onlineUsers = [], socket = Some 0, token = Some ''tok-a'',
      heap = [\<lparr>sock_state = Connected, reconnecting = False, query_userId = ''a1''\<rparr>],
      timers = [], wire = [Open 0], toasts = [Success ''Logged in successfully''],
      console = [''Socket connected'']\<rparr>"
  by (simp add: alice_online_def alice_connecting_eq)


subsection \<open>Teardown\<close>

lemma disconnectSocket_not_connected:
  "\<not> socket_connected (disconnectSocket st)"
  by (auto simp: disconnectSocket_def socket_connected_def connected_def sock_disconnect_def Let_def
       split: option.splits)

lemma disconnectSocket_skip:
  "\<not> socket_connected st \<Longrightarrow> disconnectSocket st = st"
  by (auto simp: disconnectSocket_def socket_connected_def split: option.splits)

lemma closes_disconnectSocket:
  "closes (disconnectSocket st) = closes st + (if socket_connected st then 1 else 0)"
  by (auto simp: disconnectSocket_def socket_connected_def connected_def sock_disconnect_def Let_def
       closes_def split: option.splits)

text \<open>
  C9: \<^verbatim>\<open>disconnectSocket()\<close> is idempotent. Calling it twice gives the state that calling it
  once gives; over the two calls the transport observes one close event if the store's socket
  was connected and none otherwise; and when the store's socket is not connected (or is
  \<^verbatim>\<open>null\<close>) the call changes nothing.
\<close>

theorem disconnectSocket_idempotent:
  "disconnectSocket (disconnectSocket st) = disconnectSocket st \<and>
   closes (disconnectSocket (disconnectSocket st)) =
     closes st + (if socket_connected st then 1 else 0) \<and>
   (\<not> socket_connected st \<longrightarrow> disconnectSocket st = st)"
  using disconnectSocket_not_connected [of st] disconnectSocket_skip closes_disconnectSocket [of st]
  by simp

theorem disconnectSocket_idempotent_witness:
  "\<not> socket_connected alice_connecting \<and>
   disconnectSocket alice_connecting = alice_connecting \<and>
   socket_connected alice_online \<and>
   disconnectSocket (disconnectSocket alice_online) = disconnectSocket alice_online \<and>
   closes (disconnectSocket (disconnectSocket alice_online)) = 1"
proof -
  have h1: "\<not> socket_connected alice_connecting"
    by (simp add: alice_connecting_eq socket_connected_def connected_def)
  have h2: "socket_connected alice_online"
    by (simp add: alice_online_eq socket_connected_def connected_def)
  have c: "closes alice_online = 0"
    by (simp add: alice_online_eq closes_def)
  note on = disconnectSocket_idempotent [of alice_online]
  from on have a: "disconnectSocket (disconnectSocket alice_online) = disconnectSocket alice_online"
    by (rule conjunct1)
  from on have "closes (disconnectSocket (disconnectSocket alice_online)) =
      closes alice_online + (if socket_connected alice_online then 1 else 0)"
    by (rule conjunct1 [OF conjunct2])
  with h2 c have b: "closes (disconnectSocket (disconnectSocket alice_online)) = 1"
    by simp
  from disconnectSocket_idempotent [of alice_connecting] h1
  have "disconnectSocket alice_connecting = alice_connecting" by simp
  with h1 h2 a b show ?thesis by blast
qed

subsection \<open>Logout\<close>









subsection \<open>Reconnection\<close>

text \<open>
  The store's own retry: when the transport of a connecting socket fails to open, the
  handler of lines 139--142 appends one timer of 5000 ms for that socket and leaves
  \<^verbatim>\<open>authUser\<close> and the token alone. The manager is reconnecting by then.
\<close>

lemma connect_error_adds_timer:
  "s < length (heap st) \<Longrightarrow> sock_state (heap st ! s) = Connecting \<Longrightarrow>
   timers (emit s EvConnectError st) = timers st @ [(5000, s)] \<and>
   reconnecting (heap (emit s EvConnectError st) ! s) \<and>
   authUser (emit s EvConnectError st) = authUser st \<and>
   token (emit s EvConnectError st) = token st"
  by simp

text \<open>
  When that timer fires while the manager is still reconnecting, \<^verbatim>\<open>socket.connect()\<close>
  opens nothing: the reconnection is the manager's.
\<close>

lemma store_timer_opens_nothing:
  "s < length (heap st) \<Longrightarrow> sock_state (heap st ! s) = Connecting \<Longrightarrow> timers st = [] \<Longrightarrow>
   fire_timer (emit s EvConnectError st) = (emit s EvConnectError st)\<lparr>timers := []\<rparr>"
  by (simp add: fire_timer_def sock_connect_def)

text \<open>No socket event changes \<^verbatim>\<open>authUser\<close> or the persisted token.\<close>

lemma emit_keeps_session:
  "authUser (emit s ev st) = authUser st \<and> token (emit s ev st) = token st"
  by (cases ev) simp_all

text \<open>
  C3 does not hold of the code when an established connection is lost. The failure
  arrives as the \<^verbatim>\<open>"disconnect"\<close> event, whose handler (lines 134--136) only logs; the
  5-second retry, which the comment of line 138 announces for a disconnect, is registered
  for \<^verbatim>\<open>"connect_error"\<close> only. With Alice online and her transport failing, the store
  schedules nothing; what is left is the manager's own reconnection, which does not wait
  the fixed five seconds. \<^verbatim>\<open>authUser\<close> is unchanged, as C3 says.
\<close>

theorem disconnect_schedules_no_retry:
  "timers (emit 0 (EvDisconnect TransportError) alice_online) = [] \<and>
   connected alice_online 0 \<and>
   \<not> connected (emit 0 (EvDisconnect TransportError) alice_online) 0 \<and>
   reconnecting (heap (emit 0 (EvDisconnect TransportError) alice_online) ! 0) \<and>
   authUser (emit 0 (EvDisconnect TransportError) alice_online) = Some alice"
  by (simp add: alice_online_eq connected_def)

subsection \<open>Session check\<close>

text \<open>
  C4: when \<^verbatim>\<open>checkAuth()\<close> fails with status 401, the persisted token is removed,
  \<^verbatim>\<open>authUser\<close> is \<^verbatim>\<open>null\<close>, and no connection is attempted: the store's socket, the socket
  objects, the transport and the timers are as before.
\<close>

theorem checkAuth_401_discards_token:
  "token (checkAuth (Rejected (Some 401) message) st) = None \<and>
   authUser (checkAuth (Rejected (Some 401) message) st) = None \<and>
   \<not> isCheckingAuth (checkAuth (Rejected (Some 401) message) st) \<and>
   socket (checkAuth (Rejected (Some 401) message) st) = socket st \<and>
   heap (checkAuth (Rejected (Some 401) message) st) = heap st \<and>
   wire (checkAuth (Rejected (Some 401) message) st) = wire st \<and>
   timers (checkAuth (Rejected (Some 401) message) st) = timers st"
  by (simp add: checkAuth_def)

text \<open>
  C5: \<^verbatim>\<open>checkAuth()\<close> returns a state for every outcome of the request (success, a 401, any
  other failure) and from every starting state, and in that state \<^verbatim>\<open>isCheckingAuth\<close> is false.
\<close>

theorem checkAuth_sets_flag:
  "isCheckingAuth (checkAuth res st) = False"
  by (simp add: checkAuth_def Let_def)

subsection \<open>Failed signup and login\<close>

text \<open>
  C6: when \<^verbatim>\<open>signup(data)\<close> or \<^verbatim>\<open>login(data)\<close> fails in an unauthenticated session,
  \<^verbatim>\<open>authUser\<close> stays \<^verbatim>\<open>null\<close>; the toast shown is the server's message when there is one
  (a non-empty string) and the fallback \<^verbatim>\<open>"Login failed"\<close> or \<^verbatim>\<open>"Signup failed"\<close> when there
  is none; and no connection is attempted: sockets, transport and the store's socket are as
  before.
\<close>

theorem failed_login_signup_unauthenticated:
  "authUser st = None \<Longrightarrow>
   authUser (login (Rejected status message) st) = None \<and>
   authUser (signup (Rejected status message) st) = None \<and>
   toasts (login (Rejected status message) st) =
     toasts st @ [Error (or_else message ''Login failed'')] \<and>
   toasts (signup (Rejected status message) st) =
     toasts st @ [Error (or_else message ''Signup failed'')] \<and>
   or_else (Some (c # cs)) fallback = c # cs \<and>
   or_else None fallback = fallback \<and>
   heap (login (Rejected status message) st) = heap st \<and>
   heap (signup (Rejected status message) st) = heap st \<and>
   wire (login (Rejected status message) st) = wire st \<and>
   wire (signup (Rejected status message) st) = wire st \<and>
   socket (login (Rejected status message) st) = socket st \<and>
   socket (signup (Rejected status message) st) = socket st"
  by (simp add: login_def signup_def or_else_def)

theorem failed_login_signup_unauthenticated_witness:
  "authUser init_client = None \<and>
   authUser (login (Rejected (Some 400) (Some ''Invalid credentials'')) init_client) = None \<and>
   toasts (login (Rejected (Some 400) (Some ''Invalid credentials'')) init_client) =
     [Error ''Invalid credentials''] \<and>
   toasts (signup (Rejected None None) init_client) = [Error ''Signup failed''] \<and>
   heap (login (Rejected (Some 400) (Some ''Invalid credentials'')) init_client) = [] \<and>
   wire (signup (Rejected None None) init_client) = []"
proof -
  have h: "authUser init_client = None" by (simp add: init_client_def)
  have e: "toasts init_client = []" "heap init_client = []" "wire init_client = []"
    by (simp_all add: init_client_def)
  from failed_login_signup_unauthenticated [OF h, of "Some 400" "Some ''Invalid credentials''"]
       failed_login_signup_unauthenticated [OF h, of None None]
  show ?thesis using h e by (simp add: or_else_def)
qed

text \<open>
  C10: when a user is already authenticated, a failed \<^verbatim>\<open>login(data)\<close> or \<^verbatim>\<open>signup(data)\<close>
  leaves \<^verbatim>\<open>authUser\<close>, the persisted token, the store's socket, the socket objects and
  \<^verbatim>\<open>onlineUsers\<close> unchanged.
\<close>

theorem failed_reauth_keeps_session:
  "authUser st = Some u \<Longrightarrow>
   authUser (login (Rejected status message) st) = Some u \<and>
   token (login (Rejected status message) st) = token st \<and>
   socket (login (Rejected status message) st) = socket st \<and>
   heap (login (Rejected status message) st) = heap st \<and>
   onlineUsers (login (Rejected status message) st) = onlineUsers st \<and>
   authUser (signup (Rejected status message) st) = Some u \<and>
   token (signup (Rejected status message) st) = token st \<and>
   socket (signup (Rejected status message) st) = socket st \<and>
   heap (signup (Rejected status message) st) = heap st \<and>
   onlineUsers (signup (Rejected status message) st) = onlineUsers st"
  by (simp add: login_def signup_def)

theorem failed_reauth_keeps_session_witness:
  "authUser alice_online = Some alice \<and>
   authUser (login (Rejected (Some 400) None) alice_online) = Some alice \<and>
   token (signup (Rejected (Some 400) None) alice_online) = Some ''tok-a'' \<and>
   socket (login (Rejected (Some 400) None) alice_online) = Some 0 \<and>
   socket_connected (login (Rejected (Some 400) None) alice_online)"
proof -
  have h: "authUser alice_online = Some alice" by (simp add: alice_online_eq)
  have e: "token alice_online = Some ''tok-a''" "socket alice_online = Some 0"
    "sock_state (heap alice_online ! 0) = Connected" "length (heap alice_online) = 1"
    by (simp_all add: alice_online_eq)
  from failed_reauth_keeps_session [OF h, of "Some 400" None] h e
  show ?thesis by (simp add: socket_connected_def connected_def)
qed

subsection \<open>Connection establishment\<close>

text \<open>
  C7: \<^verbatim>\<open>connectSocket()\<close> changes nothing, neither the store nor the sockets nor the
  transport, when \<^verbatim>\<open>authUser\<close> is \<^verbatim>\<open>null\<close> or the store's socket is connected.
\<close>

theorem connectSocket_noop:
  "authUser st = None \<or> socket_connected st \<Longrightarrow> connectSocket st = st"
  by (auto simp: connectSocket_def split: option.splits)

theorem connectSocket_noop_witness:
  "(authUser alice_online = None \<or> socket_connected alice_online) \<and>
   connectSocket alice_online = alice_online"
proof -
  have h: "socket_connected alice_online"
    by (simp add: alice_online_eq socket_connected_def connected_def)
  from connectSocket_noop [of alice_online] h show ?thesis by simp
qed

text \<open>
  C8 as stated does not hold: the guard of line 116 reads \<^verbatim>\<open>socket.connected\<close>, which is
  false while the first socket is still connecting, so a second call made before the
  acknowledgement creates and opens a second socket.
\<close>

theorem connectSocket_twice_counterexample:
  "\<not> length (heap (connectSocket (connectSocket alice_session))) \<le> 1 \<and>
   wire (connectSocket (connectSocket alice_session)) = [Open 0, Open 1]"
  by (simp add: alice_session_def init_client_def connectSocket_def sock_defs)

text \<open>
  C8, amended: for every authenticated session whose socket is not connected,
  \<^verbatim>\<open>connectSocket()\<close> makes one socket and stores it; once that socket's handshake has been
  acknowledged, a second \<^verbatim>\<open>connectSocket()\<close> changes nothing, so one connection has been
  created and opened.
\<close>

theorem connectSocket_after_ack:
  "authUser st = Some u \<Longrightarrow> \<not> socket_connected st \<Longrightarrow>
   socket (connectSocket st) = Some (length (heap st)) \<and>
   socket_connected (emit (length (heap st)) EvConnect (connectSocket st)) \<and>
   connectSocket (emit (length (heap st)) EvConnect (connectSocket st)) =
     emit (length (heap st)) EvConnect (connectSocket st) \<and>
   length (heap (emit (length (heap st)) EvConnect (connectSocket st))) = length (heap st) + 1 \<and>
   wire (emit (length (heap st)) EvConnect (connectSocket st)) = wire st @ [Open (length (heap st))]"
  by (simp add: connectSocket_def sock_defs)

theorem connectSocket_after_ack_witness:
  "authUser alice_session = Some alice \<and> \<not> socket_connected alice_session \<and>
   connectSocket (emit 0 EvConnect (connectSocket alice_session)) =
     emit 0 EvConnect (connectSocket alice_session) \<and>
   wire (connectSocket (emit 0 EvConnect (connectSocket alice_session))) = [Open 0]"
proof -
  have h1: "authUser alice_session = Some alice"
    and h2: "\<not> socket_connected alice_session"
    by (simp_all add: alice_session_def init_client_def socket_connected_def)
  have e: "heap alice_session = []" "wire alice_session = []"
    by (simp_all add: alice_session_def init_client_def)
  from connectSocket_after_ack [OF h1 h2] h1 h2 e show ?thesis by simp
qed

section \<open>Properties of the registry\<close>

lemma keys_insert_record:
  "map fst (insert_record k v reg) =
     (if k \<in> fst ` set reg then map fst reg else map fst reg @ [k])"
proof (induction reg)
  case Nil
  then show ?case by simp
next
  case (Cons p reg)
  obtain k' v' where p: "p = (k', v')" by (cases p)
  show ?case
  proof (cases "k' = k")
    case True
    with p show ?thesis by simp
  next
    case False
    with p Cons.IH show ?thesis by auto
  qed
qed

lemma distinct_insert_record:
  "distinct (map fst reg) \<Longrightarrow> distinct (map fst (insert_record k v reg))"
  by (simp add: keys_insert_record)

lemma distinct_remove_record:
  "distinct (map fst reg) \<Longrightarrow> distinct (map fst (remove_record k reg))"
  by (simp add: remove_record_def distinct_map_filter)

lemma step_distinct:
  "distinct (map fst reg) \<Longrightarrow> step e reg = (reg', b) \<Longrightarrow> distinct (map fst reg')"
  by (cases e) (auto simp: Let_def distinct_insert_record distinct_remove_record
                     split: option.splits if_splits)

lemma step_broadcast:
  "step e reg = (reg', Some b) \<Longrightarrow> b = map fst reg'"
  by (cases e) (auto simp: Let_def onlineSet_def split: option.splits if_splits)

lemma trace_broadcast:
  "distinct (map fst reg0) \<Longrightarrow> (reg, Some b) \<in> set (trace reg0 es) \<Longrightarrow>
   b = map fst reg \<and> distinct (map fst reg)"
proof (induction es arbitrary: reg0)
  case Nil
  then show ?case by simp
next
  case (Cons e es)
  obtain reg1 b1 where st: "step e reg0 = (reg1, b1)" by (cases "step e reg0")
  have d1: "distinct (map fst reg1)" using step_distinct [OF Cons.prems(1) st] .
  from Cons.prems(2) st have "(reg, Some b) = (reg1, b1) \<or> (reg, Some b) \<in> set (trace reg1 es)"
    by simp
  then show ?case
  proof
    assume "(reg, Some b) = (reg1, b1)"
    with st d1 step_broadcast [of e reg0 reg b] show ?thesis by simp
  next
    assume "(reg, Some b) \<in> set (trace reg1 es)"
    with Cons.IH [OF d1] show ?thesis by simp
  qed
qed

lemma scenario_trace:
  "trace [] scenario =
     [([(''A'', \<lparr>identity = ''A'', connectionHandle = 1, connectedAt = 10\<rparr>)],
       Some [''A'']),
      ([(''A'', \<lparr>identity = ''A'', connectionHandle = 1, connectedAt = 10\<rparr>),
        (''B'', \<lparr>identity = ''B'', connectionHandle = 2, connectedAt = 11\<rparr>)],
       Some [''A'', ''B'']),
      ([(''B'', \<lparr>identity = ''B'', connectionHandle = 2, connectedAt = 11\<rparr>)],
       Some [''B'']),
      ([(''B'', \<lparr>identity = ''B'', connectionHandle = 2, connectedAt = 11\<rparr>),
        (''A'', \<lparr>identity = ''A'', connectionHandle = 3, connectedAt = 20\<rparr>)],
       Some [''B'', ''A''])]"
  by (simp add: scenario_def Let_def remove_record_def onlineSet_def)

text \<open>
  C1: for every sequence of connect and disconnect events handled by the registry, starting
  from the empty registry, each OnlineSet that is broadcast holds exactly the keys the
  registry has right after the insertion or removal that caused it, each once.
\<close>

theorem broadcast_is_key_set:
  "(reg, Some b) \<in> set (trace [] es) \<Longrightarrow> set b = dom (map_of reg) \<and> distinct b"
  using trace_broadcast [of "[]" reg b es] by (simp add: dom_map_of_conv_image_fst)

theorem broadcast_is_key_set_witness:
  "([(''B'', \<lparr>identity = ''B'', connectionHandle = 2, connectedAt = 11\<rparr>)], Some [''B''])
     \<in> set (trace [] scenario) \<and>
   set [''B''] =
     dom (map_of [(''B'', \<lparr>identity = ''B'', connectionHandle = 2, connectedAt = 11\<rparr>)]) \<and>
   distinct [''B'']"
proof -
  have h: "([(''B'', \<lparr>identity = ''B'', connectionHandle = 2, connectedAt = 11\<rparr>)], Some [''B''])
     \<in> set (trace [] scenario)"
    by (simp add: scenario_trace)
  from broadcast_is_key_set [OF h] h show ?thesis by blast
qed

end
